theory Spec2Isabelle
  imports Main
begin

section \<open>JavaScript values\<close>

text \<open>
  The \<open>Media\<close> class is untyped JavaScript: a media descriptor is whatever value
  the caller or the DOM hands over. Values are therefore modelled as a datatype with
  the constructors the class can tell apart (through \<open>typeof\<close>, \<open>Array.isArray\<close>,
  truthiness and property reads). An object is the list of its own properties, the
  first binding of a name being its value; an array is the list of its slots, a
  slot holding an element (\<open>Some\<close>) or being a hole (\<open>None\<close>), as in \<open>[ , ]\<close>; a
  function value is an opaque number, applied through the environment.
\<close>

datatype jsval =
    JUndefined
  | JNull
  | JBool bool
  | JNum int
  | JStr string
  | JFun nat
  | JArr "jsval option list"
  | JObj "(string \<times> jsval) list"

text \<open>
  Exceptions are values. \<open>TypeError\<close> carries the message of the source where the
  source throws it itself (\<open>'Media not set'\<close>,
  \<open>'Media cannot be played with any valid media type'\<close>) and a short description
  where the engine throws it (a property read on \<open>null\<close> or \<open>undefined\<close>, a call of
  something that is no function). \<open>ReferenceError\<close> carries the identifier that is
  not bound. \<open>ExternalError\<close> is whatever a constructor outside this file throws.
\<close>

datatype error =
    TypeError string
  | ReferenceError string
  | ExternalError

fun truthy :: "jsval \<Rightarrow> bool" where
  "truthy JUndefined = False"
| "truthy JNull = False"
| "truthy (JBool b) = b"
| "truthy (JNum n) = (n \<noteq> 0)"
| "truthy (JStr s) = (s \<noteq> [])"
| "truthy (JFun n) = True"
| "truthy (JArr xs) = True"
| "truthy (JObj fs) = True"

text \<open>\<open>a || b\<close>\<close>

definition js_or :: "jsval \<Rightarrow> jsval \<Rightarrow> jsval" where
  "js_or a b = (if truthy a then a else b)"

text \<open>
  A property read \<open>v.f\<close>, for the names the class reads from descriptors (\<open>src\<close>,
  \<open>type\<close>): a TypeError on \<open>null\<close> and \<open>undefined\<close>, the property's value on an
  object that has it, \<open>undefined\<close> everywhere else.
\<close>

fun get_prop :: "jsval \<Rightarrow> string \<Rightarrow> error + jsval" where
  "get_prop JUndefined f = Inl (TypeError (''cannot read property of undefined: '' @ f))"
| "get_prop JNull f = Inl (TypeError (''cannot read property of null: '' @ f))"
| "get_prop (JObj fs) f = Inr (case map_of fs f of None \<Rightarrow> JUndefined | Some v \<Rightarrow> v)"
| "get_prop (JBool b) f = Inr JUndefined"
| "get_prop (JNum n) f = Inr JUndefined"
| "get_prop (JStr s) f = Inr JUndefined"
| "get_prop (JFun n) f = Inr JUndefined"
| "get_prop (JArr xs) f = Inr JUndefined"

section \<open>DOM elements\<close>

text \<open>
  What the class reads of an element: its \<open>src\<close> property, its \<open>type\<close> attribute
  (\<open>getAttribute\<close> gives \<open>null\<close> when the attribute is absent) and its \<open>source\<close>
  children in document order (\<open>querySelectorAll('source')\<close>), each with the same
  two.
\<close>

record source_tag =
  tag_src :: string
  tag_type :: "string option"

record html_element =
  tagName :: string
  src_prop :: string
  type_attr :: "string option"
  source_children :: "source_tag list"

definition getAttribute :: "string option \<Rightarrow> jsval" where
  "getAttribute a = (case a of None \<Rightarrow> JNull | Some s \<Rightarrow> JStr s)"

section \<open>Backend adapters, promises and the state\<close>

datatype media_class =
    NativeMedia
  | HlsMedia
  | DashMedia
  | DailymotionMedia
  | FacebookMedia
  | TwitchMedia
  | VimeoMedia
  | YouTubeMedia

text \<open>
  An adapter object, with the three fields the YouTubeMedia constructor assigns
  (\<open>element\<close>, \<open>media\<close>, \<open>promise\<close>); a promise is named by its index in the
  state's promise table.
\<close>

record adapter =
  a_class :: media_class
  a_element :: html_element
  a_media :: jsval
  a_promise :: nat

text \<open>The field \<open>this.media\<close>: never assigned by the constructor, so \<open>undefined\<close>
  until \<open>load\<close> assigns \<open>null\<close> or an adapter.\<close>

datatype backend = NotSet | Null | Selected adapter

text \<open>The receiver of a delegated call: \<open>this.media\<close> or \<open>this.element\<close>.\<close>

datatype target = OnAdapter adapter | OnElement html_element

text \<open>
  The four arrow functions the class hands to \<open>then\<close>: in \<open>load\<close> (lines 73-75),
  the outer and the inner one of \<open>play\<close> (lines 86-92 and 88-91), and the one of
  \<open>pause\<close> (lines 100-102), which closes over the \<open>target\<close> computed by \<open>pause\<close>.
\<close>

datatype callback = LoadThen | PlayThen | PlayReadyThen | PauseThen target

text \<open>
  A promise is pending, with the reactions registered by \<open>then\<close> in order (the
  callback and the promise \<open>then\<close> returned), fulfilled, or rejected. No callback of
  the class returns a value and none reads one, so a fulfilled promise carries none.
\<close>

datatype promise_state =
    Pending "(callback \<times> nat) list"
  | Fulfilled
  | Rejected error

text \<open>A job of the microtask queue: run a reaction of a fulfilled promise, or pass
  a rejection on to the promise \<open>then\<close> returned (no \<open>then\<close> of the class has a
  rejection handler).\<close>

datatype job = Reaction callback nat | Rejection error nat

text \<open>
  The state: the four fields of the \<open>Media\<close> object, and of the runtime the promise
  table, the microtask queue and the calls delivered to adapters and elements
  (receiver and method name), oldest first.
\<close>

record state =
  element :: html_element
  mediaFiles :: "jsval option list"
  promisePlay :: "nat option"
  media :: backend
  promises :: "promise_state list"
  microtasks :: "job list"
  calls :: "(target \<times> string) list"

section \<open>The environment: code outside the two source files\<close>

text \<open>
  \<open>./utils/dom\<close>, \<open>./utils/url\<close> and seven of the eight adapter classes are not part
  of the sources at hand; they are parameters. Of an adapter class other than
  YouTubeMedia the model needs to know whether its constructor throws, whether its
  \<open>promise\<close> is already resolved when the constructor returns, which methods it has
  and what the truthiness of its \<open>canPlayType\<close> is. \<open>elementHas\<close> says which methods
  the element has. \<open>globalScope\<close> is the binding of an identifier that the module
  neither declares nor imports (\<open>None\<close> when the global object has no such property),
  and \<open>callFun\<close> applies a function value.
\<close>

record env =
  isIframe :: "html_element \<Rightarrow> bool"
  predictType :: "jsval \<Rightarrow> jsval"
  isDailymotionSource :: "jsval \<Rightarrow> bool"
  isFacebookSource :: "jsval \<Rightarrow> bool"
  isTwitchSource :: "jsval \<Rightarrow> bool"
  isVimeoSource :: "jsval \<Rightarrow> bool"
  isYouTubeSource :: "jsval \<Rightarrow> bool"
  isHlsSource :: "jsval \<Rightarrow> bool"
  isDashSource :: "jsval \<Rightarrow> bool"
  ctorThrows :: "media_class \<Rightarrow> html_element \<Rightarrow> jsval \<Rightarrow> bool"
  readyOnCreate :: "media_class \<Rightarrow> bool"
  hasMethod :: "media_class \<Rightarrow> string \<Rightarrow> bool"
  extCanPlayType :: "adapter \<Rightarrow> jsval \<Rightarrow> bool"
  elementHas :: "html_element \<Rightarrow> string \<Rightarrow> bool"
  globalScope :: "string \<Rightarrow> jsval option"
  callFun :: "nat \<Rightarrow> jsval list \<Rightarrow> error + jsval"

section \<open>Promises\<close>

definition new_promise :: "promise_state \<Rightarrow> state \<Rightarrow> nat \<times> state" where
  "new_promise st s = (length (promises s), s\<lparr>promises := promises s @ [st]\<rparr>)"

text \<open>
  \<open>p.then(cb)\<close>: a new pending promise \<open>d\<close> is returned; the reaction is stored
  when \<open>p\<close> is pending and queued as a microtask when \<open>p\<close> is settled already. (Every
  promise the class holds is in the table; for an index outside it nothing is
  registered.)
\<close>

definition then_promise :: "nat \<Rightarrow> callback \<Rightarrow> state \<Rightarrow> nat \<times> state" where
  "then_promise p cb s =
     (let (d, s1) = new_promise (Pending []) s in
      if p < length (promises s1) then
        (case promises s1 ! p of
           Pending rs \<Rightarrow> (d, s1\<lparr>promises := (promises s1)[p := Pending (rs @ [(cb, d)])]\<rparr>)
         | Fulfilled \<Rightarrow> (d, s1\<lparr>microtasks := microtasks s1 @ [Reaction cb d]\<rparr>)
         | Rejected e \<Rightarrow> (d, s1\<lparr>microtasks := microtasks s1 @ [Rejection e d]\<rparr>))
      else (d, s1))"

text \<open>Settling a pending promise queues its reactions in the order of registration;
  a settled promise stays as it is.\<close>

definition settle :: "nat \<Rightarrow> error option \<Rightarrow> state \<Rightarrow> state" where
  "settle d outcome s =
     (if d < length (promises s) then
        (case promises s ! d of
           Pending rs \<Rightarrow>
             s\<lparr>promises := (promises s)[d := (case outcome of None \<Rightarrow> Fulfilled | Some e \<Rightarrow> Rejected e)],
               microtasks := microtasks s @
                 map (\<lambda>(cb, d'). case outcome of None \<Rightarrow> Reaction cb d' | Some e \<Rightarrow> Rejection e d') rs\<rparr>
         | Fulfilled \<Rightarrow> s
         | Rejected e \<Rightarrow> s)
      else s)"

section \<open>The adapter classes\<close>

text \<open>
  \<open>new K(element, mediaFile)\<close>. YouTubeMedia (youtube.js, lines 16-23) stores its
  arguments and a promise that its executor resolves at once; it never throws. The
  other classes are parameters of the environment.
\<close>

definition construct ::
  "env \<Rightarrow> media_class \<Rightarrow> html_element \<Rightarrow> jsval \<Rightarrow> state \<Rightarrow> state \<times> (error + adapter)" where
  "construct env k el m s =
     (if k \<noteq> YouTubeMedia \<and> ctorThrows env k el m then (s, Inl ExternalError)
      else
        (let (p, s1) = new_promise
               (if k = YouTubeMedia \<or> readyOnCreate env k then Fulfilled else Pending []) s
         in (s1, Inr \<lparr>a_class = k, a_element = el, a_media = m, a_promise = p\<rparr>)))"

text \<open>The methods of an adapter: YouTubeMedia has \<open>canPlayType\<close> and \<open>load\<close> and
  nothing else (youtube.js, lines 25-31).\<close>

definition adapter_has :: "env \<Rightarrow> adapter \<Rightarrow> string \<Rightarrow> bool" where
  "adapter_has env a name =
     (if a_class a = YouTubeMedia then name = ''canPlayType'' \<or> name = ''load''
      else hasMethod env (a_class a) name)"

text \<open>\<open>YouTubeMedia.canPlayType\<close> (youtube.js, lines 25-27):
  \<open>mimeType === 'application/x-youtube' && this.media.type === mimeType\<close>.\<close>

definition youtube_canPlayType :: "adapter \<Rightarrow> jsval \<Rightarrow> error + bool" where
  "youtube_canPlayType a mimeType =
     (if mimeType = JStr ''application/x-youtube'' then
        (case get_prop (a_media a) ''type'' of
           Inl e \<Rightarrow> Inl e
         | Inr t \<Rightarrow> Inr (t = mimeType))
      else Inr False)"

text \<open>A call \<open>target.name()\<close> of a method outside the class: a TypeError when the
  receiver has no such method, otherwise the call is delivered and recorded.\<close>

definition target_has :: "env \<Rightarrow> target \<Rightarrow> string \<Rightarrow> bool" where
  "target_has env t name =
     (case t of OnAdapter a \<Rightarrow> adapter_has env a name | OnElement el \<Rightarrow> elementHas env el name)"

definition call_method :: "env \<Rightarrow> target \<Rightarrow> string \<Rightarrow> state \<Rightarrow> state \<times> error option" where
  "call_method env t name s =
     (if target_has env t name then (s\<lparr>calls := calls s @ [(t, name)]\<rparr>, None)
      else (s, Some (TypeError (name @ '' is not a function''))))"

section \<open>The Media class\<close>

text \<open>A read of an identifier the module does not bind, and a call of it.\<close>

definition call_global :: "env \<Rightarrow> string \<Rightarrow> jsval list \<Rightarrow> error + jsval" where
  "call_global env name args =
     (case globalScope env name of
        None \<Rightarrow> Inl (ReferenceError name)
      | Some (JFun n) \<Rightarrow> callFun env n args
      | Some _ \<Rightarrow> Inl (TypeError (name @ '' is not a function'')))"

text \<open>
  \<open>_getMediaFiles\<close> (lines 153-183). In the branch of a video or audio element the
  identifier \<open>nodeSource\<close> is read, which the module never declares. The object
  literal of that branch has the properties \<open>type\<close> and \<open>nodeSource\<close> (a shorthand
  property).
\<close>

definition getMediaFiles :: "env \<Rightarrow> html_element \<Rightarrow> error + jsval option list" where
  "getMediaFiles env el =
     (if isIframe env el then
        Inr [Some (JObj [(''type'', predictType env (JStr (src_prop el))),
                         (''src'', JStr (src_prop el))])]
      else
        (case globalScope env ''nodeSource'' of
           None \<Rightarrow> Inl (ReferenceError ''nodeSource'')
         | Some nodeSource \<Rightarrow>
             Inr ((if truthy nodeSource then
                     [Some (JObj [(''type'', js_or (getAttribute (type_attr el))
                                                (predictType env nodeSource)),
                                  (''nodeSource'', nodeSource)])]
                   else []) @
                  map (\<lambda>item.
                         Some (JObj [(''type'', js_or (getAttribute (tag_type item))
                                                  (predictType env (JStr (tag_src item)))),
                                     (''src'', JStr (tag_src item))]))
                      (source_children el))))"

text \<open>The constructor (lines 25-30); \<open>this.media\<close> is left unassigned.\<close>

definition Media :: "env \<Rightarrow> html_element \<Rightarrow> error + state" where
  "Media env el =
     (case getMediaFiles env el of
        Inl e \<Rightarrow> Inl e
      | Inr files \<Rightarrow>
          Inr \<lparr>element = el, mediaFiles = files, promisePlay = None, media = NotSet,
               promises = [], microtasks = [], calls = []\<rparr>)"

text \<open>\<open>new K(this.element, media)\<close> as the value of \<open>this.media\<close>.\<close>

definition new_media :: "env \<Rightarrow> media_class \<Rightarrow> jsval \<Rightarrow> state \<Rightarrow> state \<times> (error + backend)" where
  "new_media env k m s =
     (case construct env k (element s) m s of
        (s', Inl e) \<Rightarrow> (s', Inl e)
      | (s', Inr a) \<Rightarrow> (s', Inr (Selected a)))"

text \<open>\<open>_loadIframeSource\<close> (lines 191-205).\<close>

definition loadIframeSource :: "env \<Rightarrow> jsval \<Rightarrow> state \<Rightarrow> state \<times> (error + backend)" where
  "loadIframeSource env m s =
     (case get_prop m ''src'' of
        Inl e \<Rightarrow> (s, Inl e)
      | Inr u \<Rightarrow>
          if isDailymotionSource env u then new_media env DailymotionMedia m s
          else if isFacebookSource env u then new_media env FacebookMedia m s
          else if isTwitchSource env u then new_media env TwitchMedia m s
          else if isVimeoSource env u then new_media env VimeoMedia m s
          else if isYouTubeSource env u then new_media env YouTubeMedia m s
          else (s, Inr Null))"

text \<open>\<open>_loadNativeSource\<close> (lines 214-222).\<close>

definition loadNativeSource :: "env \<Rightarrow> jsval \<Rightarrow> state \<Rightarrow> state \<times> (error + backend)" where
  "loadNativeSource env m s =
     (case get_prop m ''src'' of
        Inl e \<Rightarrow> (s, Inl e)
      | Inr u \<Rightarrow>
          if isHlsSource env u then new_media env HlsMedia m s
          else if isDashSource env u then new_media env DashMedia m s
          else new_media env NativeMedia m s)"

text \<open>\<open>canPlayType\<close> (lines 38-40): \<open>!!(this.media.canPlayType(mimeType))\<close>.\<close>

definition canPlayType :: "env \<Rightarrow> jsval \<Rightarrow> state \<Rightarrow> error + bool" where
  "canPlayType env mimeType s =
     (case media s of
        NotSet \<Rightarrow> Inl (TypeError ''cannot read property of undefined: canPlayType'')
      | Null \<Rightarrow> Inl (TypeError ''cannot read property of null: canPlayType'')
      | Selected a \<Rightarrow>
          if \<not> adapter_has env a ''canPlayType'' then Inl (TypeError ''canPlayType is not a function'')
          else if a_class a = YouTubeMedia then youtube_canPlayType a mimeType
          else Inr (extCanPlayType env a mimeType))"

text \<open>
  The \<open>try\<close>/\<open>catch\<close> of the callback of \<open>some\<close> (lines 58-64): whatever the selection
  throws, a NativeMedia is constructed instead, and what that constructor throws
  leaves the callback.
\<close>

definition select_media :: "env \<Rightarrow> jsval \<Rightarrow> state \<Rightarrow> state \<times> error option" where
  "select_media env m s =
     (case (if isIframe env (element s) then loadIframeSource env m s
            else loadNativeSource env m s) of
        (s1, Inr b) \<Rightarrow> (s1\<lparr>media := b\<rparr>, None)
      | (s1, Inl e) \<Rightarrow>
          (case new_media env NativeMedia m s1 of
             (s2, Inr b) \<Rightarrow> (s2\<lparr>media := b\<rparr>, None)
           | (s2, Inl e') \<Rightarrow> (s2, Some e')))"

text \<open>The callback of \<open>some\<close> (lines 57-67): its value is
  \<open>this.canPlayType(media.type)\<close>.\<close>

definition load_callback :: "env \<Rightarrow> jsval \<Rightarrow> state \<Rightarrow> state \<times> (error + bool)" where
  "load_callback env m s =
     (case select_media env m s of
        (s1, Some e) \<Rightarrow> (s1, Inl e)
      | (s1, None) \<Rightarrow>
          (case get_prop m ''type'' of
             Inl e \<Rightarrow> (s1, Inl e)
           | Inr t \<Rightarrow> (s1, canPlayType env t s1)))"

text \<open>\<open>Array.prototype.some\<close> with that callback: the slots in order, until the
  callback returns true or throws; the callback is not called for a hole.\<close>

fun load_some :: "env \<Rightarrow> jsval option list \<Rightarrow> state \<Rightarrow> state \<times> (error + bool)" where
  "load_some env [] s = (s, Inr False)"
| "load_some env (None # ms) s = load_some env ms s"
| "load_some env (Some m # ms) s =
     (case load_callback env m s of
        (s1, Inl e) \<Rightarrow> (s1, Inl e)
      | (s1, Inr True) \<Rightarrow> (s1, Inr True)
      | (s1, Inr False) \<Rightarrow> load_some env ms s1)"

text \<open>\<open>load\<close> (lines 51-81). The length of the array counts its holes. The \<open>catch\<close>
  of the last block rethrows.\<close>

definition load :: "env \<Rightarrow> state \<Rightarrow> state \<times> error option" where
  "load env s =
     (if mediaFiles s = [] then (s, Some (TypeError ''Media not set''))
      else
        (case load_some env (mediaFiles s) s of
           (s1, Inl e) \<Rightarrow> (s1, Some e)
         | (s1, Inr found) \<Rightarrow>
             (case media s1 of
                Null \<Rightarrow> (s1, Some (TypeError ''Media cannot be played with any valid media type''))
              | NotSet \<Rightarrow> (s1, Some (TypeError ''cannot read property of undefined: promise''))
              | Selected a \<Rightarrow> (snd (then_promise (a_promise a) LoadThen s1), None))))"

text \<open>
  \<open>play\<close> (lines 83-95): a promise resolved by its executor, and \<open>then\<close> on it; the
  promise \<open>then\<close> returns is stored in \<open>promisePlay\<close> and returned.
\<close>

definition play :: "state \<Rightarrow> state \<times> nat" where
  "play s =
     (let (p0, s1) = new_promise Fulfilled s;
          (p1, s2) = then_promise p0 PlayThen s1
      in (s2\<lparr>promisePlay := Some p1\<rparr>, p1))"

text \<open>\<open>pause\<close> (lines 97-106).\<close>

definition pause :: "env \<Rightarrow> state \<Rightarrow> state \<times> error option" where
  "pause env s =
     (case media s of
        NotSet \<Rightarrow> (s, Some (TypeError ''cannot read property of undefined: pause''))
      | Null \<Rightarrow> (s, Some (TypeError ''cannot read property of null: pause''))
      | Selected a \<Rightarrow>
          (let t = (if adapter_has env a ''pause'' then OnAdapter a else OnElement (element s)) in
           case promisePlay s of
             Some p \<Rightarrow> (snd (then_promise p (PauseThen t) s), None)
           | None \<Rightarrow> call_method env t ''pause'' s))"

text \<open>
  The setter of \<open>src\<close> (lines 113-128). The branch of a string calls the identifier
  \<open>predictType\<close>, which the module neither declares nor imports (the import is the
  namespace \<open>source\<close>); the argument is evaluated before \<open>push\<close> is called.
  \<open>typeof null\<close> is \<open>'object'\<close>.
\<close>

definition set_src :: "env \<Rightarrow> jsval \<Rightarrow> state \<Rightarrow> state \<times> error option" where
  "set_src env v s =
     (case (case v of
              JStr u \<Rightarrow>
                (case call_global env ''predictType'' [v] of
                   Inl e \<Rightarrow> (s, Some e)
                 | Inr t \<Rightarrow> (s\<lparr>mediaFiles := mediaFiles s @ [Some (JObj [(''src'', v), (''type'', t)])]\<rparr>, None))
            | JArr xs \<Rightarrow> (s\<lparr>mediaFiles := xs\<rparr>, None)
            | JObj fs \<Rightarrow> (s\<lparr>mediaFiles := mediaFiles s @ [Some v]\<rparr>, None)
            | JNull \<Rightarrow> (s\<lparr>mediaFiles := mediaFiles s @ [Some v]\<rparr>, None)
            | JUndefined \<Rightarrow> (s, None)
            | JBool b \<Rightarrow> (s, None)
            | JNum n \<Rightarrow> (s, None)
            | JFun n \<Rightarrow> (s, None)) of
        (s1, Some e) \<Rightarrow> (s1, Some e)
      | (s1, None) \<Rightarrow>
          (case media s1 of
             NotSet \<Rightarrow> (s1, Some (TypeError ''cannot read property of undefined: src''))
           | Null \<Rightarrow> (s1, Some (TypeError ''cannot read property of null: src''))
           | Selected a \<Rightarrow>
               if adapter_has env a ''src'' then (s1\<lparr>calls := calls s1 @ [(OnAdapter a, ''src'')]\<rparr>, None)
               else (s1, None)))"

text \<open>The getter of \<open>src\<close> (lines 136-138).\<close>

definition get_src :: "state \<Rightarrow> jsval" where
  "get_src s = JArr (mediaFiles s)"

text \<open>\<open>destroy\<close> (lines 140-142): \<open>this.media.destroy()\<close>, with no test that the
  adapter has the method.\<close>

definition destroy :: "env \<Rightarrow> state \<Rightarrow> state \<times> error option" where
  "destroy env s =
     (case media s of
        NotSet \<Rightarrow> (s, Some (TypeError ''cannot read property of undefined: destroy''))
      | Null \<Rightarrow> (s, Some (TypeError ''cannot read property of null: destroy''))
      | Selected a \<Rightarrow> call_method env (OnAdapter a) ''destroy'' s)"

section \<open>Running the callbacks\<close>

text \<open>The bodies of the four arrow functions; each reads \<open>this.media\<close> when it runs,
  not when it was registered.\<close>

fun run_callback :: "env \<Rightarrow> callback \<Rightarrow> state \<Rightarrow> state \<times> error option" where
  "run_callback env LoadThen s =
     (case media s of
        NotSet \<Rightarrow> (s, Some (TypeError ''cannot read property of undefined: load''))
      | Null \<Rightarrow> (s, Some (TypeError ''cannot read property of null: load''))
      | Selected a \<Rightarrow> call_method env (OnAdapter a) ''load'' s)"
| "run_callback env PlayThen s =
     (case media s of
        NotSet \<Rightarrow> (s, Some (TypeError ''cannot read property of undefined: promise''))
      | Null \<Rightarrow> (s, Some (TypeError ''cannot read property of null: promise''))
      | Selected a \<Rightarrow> (snd (then_promise (a_promise a) PlayReadyThen s), None))"
| "run_callback env PlayReadyThen s =
     (case media s of
        NotSet \<Rightarrow> (s, Some (TypeError ''cannot read property of undefined: play''))
      | Null \<Rightarrow> (s, Some (TypeError ''cannot read property of null: play''))
      | Selected a \<Rightarrow>
          call_method env (if adapter_has env a ''play'' then OnAdapter a else OnElement (element s))
            ''play'' s)"
| "run_callback env (PauseThen t) s = call_method env t ''pause'' s"

text \<open>One job of the microtask queue: the callback runs and the promise \<open>then\<close>
  returned is fulfilled, or rejected with what the callback threw.\<close>

definition run_microtask :: "env \<Rightarrow> state \<Rightarrow> state" where
  "run_microtask env s =
     (case microtasks s of
        [] \<Rightarrow> s
      | j # js \<Rightarrow>
          (case j of
             Reaction cb d \<Rightarrow>
               (case run_callback env cb (s\<lparr>microtasks := js\<rparr>) of (s1, r) \<Rightarrow> settle d r s1)
           | Rejection e d \<Rightarrow> settle d (Some e) (s\<lparr>microtasks := js\<rparr>)))"

text \<open>The queue is run until it is empty; \<open>None\<close> when the fuel does not suffice.\<close>

fun drain :: "nat \<Rightarrow> env \<Rightarrow> state \<Rightarrow> state option" where
  "drain 0 env s = (if microtasks s = [] then Some s else None)"
| "drain (Suc n) env s = (if microtasks s = [] then Some s else drain n env (run_microtask env s))"

text \<open>The event from outside that an adapter has become ready (its library is
  loaded): its \<open>promise\<close> is fulfilled.\<close>

definition ready :: "adapter \<Rightarrow> state \<Rightarrow> state" where
  "ready a s = settle (a_promise a) None s"

text \<open>A media descriptor in the sense of the glossary: an object with a \<open>src\<close> and a
  \<open>type\<close> property.\<close>

definition is_descriptor :: "jsval \<Rightarrow> bool" where
  "is_descriptor v =
     (case v of
        JObj fs \<Rightarrow> map_of fs ''src'' \<noteq> None \<and> map_of fs ''type'' \<noteq> None
      | _ \<Rightarrow> False)"

text \<open>A slot of \<open>mediaFiles\<close> holds a descriptor; a hole holds none.\<close>

definition entry_is_descriptor :: "jsval option \<Rightarrow> bool" where
  "entry_is_descriptor e = (case e of None \<Rightarrow> False | Some v \<Rightarrow> is_descriptor v)"

text \<open>An array has no element at all: it is empty or consists of holes.\<close>

definition no_elements :: "jsval option list \<Rightarrow> bool" where
  "no_elements xs = list_all (\<lambda>e. e = None) xs"

section \<open>A concrete environment\<close>

text \<open>
  An environment for the examples: no global named \<open>nodeSource\<close> or \<open>predictType\<close>,
  an element is an iframe by its tag name, a URL is recognised when it is one of a
  few fixed URLs, every adapter class but YouTubeMedia has
  all methods, every adapter but the native one is not ready when constructed (its
  library is still loading), and a video or audio element has \<open>play\<close> and
  \<open>pause\<close>.
\<close>

definition youtube_url :: string where
  "youtube_url = ''https://www.youtube.com/embed/x''"

definition vimeo_url :: string where
  "vimeo_url = ''https://player.vimeo.com/video/1''"

definition hls_url :: string where
  "hls_url = ''https://example.com/a.m3u8''"

definition other_url :: string where
  "other_url = ''https://example.com/page''"

definition demo_predictType :: "jsval \<Rightarrow> jsval" where
  "demo_predictType u =
     (if u = JStr youtube_url then JStr ''application/x-youtube''
      else if u = JStr vimeo_url then JStr ''video/x-vimeo''
      else if u = JStr hls_url then JStr ''application/x-mpegURL''
      else JStr ''video/mp4'')"

definition demo_env :: env where
  "demo_env =
     \<lparr>isIframe = (\<lambda>el. tagName el = ''IFRAME''),
      predictType = demo_predictType,
      isDailymotionSource = (\<lambda>u. False),
      isFacebookSource = (\<lambda>u. False),
      isTwitchSource = (\<lambda>u. False),
      isVimeoSource = (\<lambda>u. u = JStr vimeo_url),
      isYouTubeSource = (\<lambda>u. u = JStr youtube_url),
      isHlsSource = (\<lambda>u. u = JStr hls_url),
      isDashSource = (\<lambda>u. False),
      ctorThrows = (\<lambda>k el m. False),
      readyOnCreate = (\<lambda>k. k = NativeMedia),
      hasMethod = (\<lambda>k name. True),
      extCanPlayType = (\<lambda>a t. t = demo_predictType (case get_prop (a_media a) ''src'' of Inl e \<Rightarrow> JUndefined | Inr u \<Rightarrow> u)),
      elementHas = (\<lambda>el name. tagName el \<noteq> ''IFRAME'' \<and> (name = ''play'' \<or> name = ''pause'')),
      globalScope = (\<lambda>name. None),
      callFun = (\<lambda>n args. Inr JUndefined)\<rparr>"

definition youtube_iframe :: html_element where
  "youtube_iframe = \<lparr>tagName = ''IFRAME'', src_prop = youtube_url, type_attr = None, source_children = []\<rparr>"

definition vimeo_iframe :: html_element where
  "vimeo_iframe = \<lparr>tagName = ''IFRAME'', src_prop = vimeo_url, type_attr = None, source_children = []\<rparr>"

definition other_iframe :: html_element where
  "other_iframe = \<lparr>tagName = ''IFRAME'', src_prop = other_url, type_attr = None, source_children = []\<rparr>"

definition hls_video :: html_element where
  "hls_video =
     \<lparr>tagName = ''VIDEO'', src_prop = [], type_attr = None,
      source_children = [\<lparr>tag_src = hls_url, tag_type = None\<rparr>]\<rparr>"

text \<open>The descriptor \<open>{type: t, src: u}\<close>.\<close>

definition descriptor :: "string \<Rightarrow> string \<Rightarrow> jsval" where
  "descriptor u t = JObj [(''type'', JStr t), (''src'', JStr u)]"

text \<open>The object \<open>new Media(element)\<close> for the YouTube iframe, before \<open>load\<close>.\<close>

definition youtube_media :: state where
  "youtube_media =
     \<lparr>element = youtube_iframe,
      mediaFiles = [Some (descriptor youtube_url ''application/x-youtube'')],
      promisePlay = None, media = NotSet, promises = [], microtasks = [], calls = []\<rparr>"

text \<open>The same object after \<open>load\<close>: the YouTube adapter is selected.\<close>

definition youtube_loaded :: state where
  "youtube_loaded = fst (load demo_env youtube_media)"

text \<open>The object for an iframe of a page of no supported provider.\<close>

definition other_media :: state where
  "other_media =
     \<lparr>element = other_iframe,
      mediaFiles = [Some (descriptor other_url ''video/mp4'')],
      promisePlay = None, media = NotSet, promises = [], microtasks = [], calls = []\<rparr>"

text \<open>That object after a \<open>load\<close> that threw (\<open>this.media\<close> is left \<open>null\<close>), and after
  the assignment \<open>src = [ , ]\<close> of an array of one hole that followed.\<close>

definition other_failed :: state where
  "other_failed = fst (load demo_env other_media)"

definition other_sparse :: state where
  "other_sparse = fst (set_src demo_env (JArr [None]) other_failed)"

text \<open>An iframe object whose list was assigned three descriptors: a Vimeo URL with
  a type the Vimeo adapter does not report playable, a YouTube URL, and a URL of no
  supported provider.\<close>

definition playlist :: "jsval option list" where
  "playlist =
     [Some (descriptor vimeo_url ''video/mp4''),
      Some (descriptor youtube_url ''application/x-youtube''),
      Some (descriptor other_url ''video/mp4'')]"

definition playlist_media :: state where
  "playlist_media = youtube_media\<lparr>mediaFiles := playlist\<rparr>"

text \<open>A video element's object with the descriptor of its one \<open>source\<close> child.\<close>

definition hls_media :: state where
  "hls_media =
     \<lparr>element = hls_video,
      mediaFiles = [Some (descriptor hls_url ''application/x-mpegURL'')],
      promisePlay = None, media = NotSet, promises = [], microtasks = [], calls = []\<rparr>"

text \<open>The states of \<open>load\<close> on that object: after the Vimeo descriptor was examined,
  and after the YouTube descriptor was.\<close>

definition playlist_s1 :: state where
  "playlist_s1 =
     fst (load_some demo_env [Some (descriptor vimeo_url ''video/mp4'')] playlist_media)"

definition playlist_s2 :: state where
  "playlist_s2 =
     fst (load_callback demo_env (descriptor youtube_url ''application/x-youtube'') playlist_s1)"

text \<open>The adapters \<open>load\<close> constructs in the examples.\<close>

definition youtube_adapter :: adapter where
  "youtube_adapter =
     \<lparr>a_class = YouTubeMedia, a_element = youtube_iframe,
      a_media = descriptor youtube_url ''application/x-youtube'', a_promise = 0\<rparr>"

definition hls_adapter :: adapter where
  "hls_adapter =
     \<lparr>a_class = HlsMedia, a_element = hls_video,
      a_media = descriptor hls_url ''application/x-mpegURL'', a_promise = 0\<rparr>"

text \<open>The object \<open>new Media(element)\<close> for the Vimeo iframe, the Vimeo adapter that
  \<open>load\<close> constructs for it (not ready yet), the object after \<open>load\<close>, and the object
  after \<open>play()\<close>, \<open>pause()\<close> and a run of the microtask queue.\<close>

definition vimeo_media :: state where
  "vimeo_media =
     \<lparr>element = vimeo_iframe,
      mediaFiles = [Some (descriptor vimeo_url ''video/x-vimeo'')],
      promisePlay = None, media = NotSet, promises = [], microtasks = [], calls = []\<rparr>"

definition vimeo_adapter :: adapter where
  "vimeo_adapter =
     \<lparr>a_class = VimeoMedia, a_element = vimeo_iframe,
      a_media = descriptor vimeo_url ''video/x-vimeo'', a_promise = 0\<rparr>"

definition vimeo_loaded :: state where
  "vimeo_loaded = fst (load demo_env vimeo_media)"

definition vimeo_paused :: state where
  "vimeo_paused =
     vimeo_media\<lparr>promisePlay := Some 3, media := Selected vimeo_adapter,
       promises := [Pending [(LoadThen, 1), (PlayReadyThen, 5)], Pending [], Fulfilled, Fulfilled,
                    Fulfilled, Pending []],
       calls := [(OnAdapter vimeo_adapter, ''pause'')]\<rparr>"

section \<open>Auxiliary facts\<close>

lemma get_prop_other: "get_prop m f = Inr u \<Longrightarrow> \<exists>t. get_prop m g = Inr t"
  by (cases m) simp_all

lemma construct_Inr:
  "construct env k el m s = (s', Inr a) \<Longrightarrow>
     a_class a = k \<and> a_element a = el \<and> a_media a = m \<and> media s' = media s \<and> element s' = element s
     \<and> mediaFiles s' = mediaFiles s"
  by (auto simp: construct_def new_promise_def Let_def split: if_splits)

lemma construct_Inl:
  "construct env k el m s = (s', Inl e) \<Longrightarrow> s' = s \<and> k \<noteq> YouTubeMedia \<and> ctorThrows env k el m"
  by (auto simp: construct_def new_promise_def Let_def split: if_splits)

lemma construct_ok:
  "k = YouTubeMedia \<or> \<not> ctorThrows env k el m \<Longrightarrow>
     \<exists>s' a. construct env k el m s = (s', Inr a)"
  by (auto simp: construct_def new_promise_def Let_def split: if_splits)

lemma new_media_Inr:
  "new_media env k m s = (s', Inr b) \<Longrightarrow>
     \<exists>a. b = Selected a \<and> a_class a = k \<and> a_element a = element s \<and> a_media a = m \<and> element s' = element s
       \<and> mediaFiles s' = mediaFiles s"
  by (auto simp: new_media_def split: prod.splits sum.splits dest: construct_Inr)

lemma new_media_ok:
  "k = YouTubeMedia \<or> \<not> ctorThrows env k (element s) m \<Longrightarrow>
     \<exists>s' a. new_media env k m s = (s', Inr (Selected a))"
  using construct_ok[of k env "element s" m s]
  by (auto simp: new_media_def)

lemma canPlayType_Inr: "canPlayType env t s = Inr b \<Longrightarrow> \<exists>a. media s = Selected a"
  by (cases "media s") (simp_all add: canPlayType_def)

lemma load_callback_Inr:
  "load_callback env m s = (s1, Inr b) \<Longrightarrow> \<exists>a. media s1 = Selected a"
  by (auto simp: load_callback_def split: prod.splits option.splits sum.splits dest: canPlayType_Inr)

lemma load_some_holes: "no_elements ms \<Longrightarrow> load_some env ms s = (s, Inr False)"
  by (induction ms) (auto simp: no_elements_def)

lemma load_some_Inr:
  "load_some env ms s = (s1, Inr b) \<Longrightarrow> (\<exists>a. media s1 = Selected a) \<or> (no_elements ms \<and> s1 = s)"
proof (induction env ms s rule: load_some.induct)
  case (1 env s)
  then show ?case by (simp add: no_elements_def)
next
  case (2 env ms s)
  then show ?case by (simp add: no_elements_def)
next
  case (3 env m ms s)
  obtain s' r where cb: "load_callback env m s = (s', r)" by (cases "load_callback env m s")
  show ?case
  proof (cases r)
    case (Inl e)
    with cb "3.prems" show ?thesis by simp
  next
    case (Inr found)
    from cb Inr obtain a where a: "media s' = Selected a" using load_callback_Inr by blast
    show ?thesis
    proof (cases found)
      case True
      with cb Inr "3.prems" a show ?thesis by auto
    next
      case False
      with cb Inr "3.prems" have rest: "load_some env ms s' = (s1, Inr b)" by simp
      from False have "found = False" by simp
      from "3.IH" [OF cb [symmetric] Inr this rest] a show ?thesis by auto
    qed
  qed
qed

lemma get_prop_err:
  "get_prop m f = Inl e \<Longrightarrow> e \<noteq> TypeError ''Media cannot be played with any valid media type''"
  by (cases m) auto

lemma canPlayType_err:
  "canPlayType env t s = Inl e \<Longrightarrow> e \<noteq> TypeError ''Media cannot be played with any valid media type''"
  by (cases "media s") (auto simp: canPlayType_def youtube_canPlayType_def split: if_splits sum.splits dest: get_prop_err)

lemma new_media_err:
  "new_media env k m s = (s', Inl e) \<Longrightarrow> e = ExternalError"
  by (auto simp: new_media_def construct_def new_promise_def Let_def split: prod.splits sum.splits if_splits)

lemma select_media_err:
  "select_media env m s = (s', Some e) \<Longrightarrow> e = ExternalError"
  by (auto simp: select_media_def split: prod.splits sum.splits dest: new_media_err)

lemma load_callback_err:
  "load_callback env m s = (s1, Inl e) \<Longrightarrow> e \<noteq> TypeError ''Media cannot be played with any valid media type''"
  by (auto simp: load_callback_def split: prod.splits option.splits sum.splits
      dest: canPlayType_err select_media_err get_prop_err)

lemma load_some_err:
  "load_some env ms s = (s1, Inl e) \<Longrightarrow> e \<noteq> TypeError ''Media cannot be played with any valid media type''"
proof (induction env ms s rule: load_some.induct)
  case (1 env s)
  then show ?case by simp
next
  case (2 env ms s)
  then show ?case by simp
next
  case (3 env m ms s)
  obtain s' r where cb: "load_callback env m s = (s', r)" by (cases "load_callback env m s")
  show ?case
  proof (cases r)
    case (Inl e')
    with cb "3.prems" have "e' = e" by simp
    with cb Inl show ?thesis using load_callback_err by blast
  next
    case (Inr found)
    with cb "3.prems" have nf: "found = False" and rest: "load_some env ms s' = (s1, Inl e)"
      by (auto split: if_splits bool.splits)
    from "3.IH" [OF cb [symmetric] Inr nf rest] show ?thesis .
  qed
qed

lemma load_guard_iff:
  "snd (load env s) = Some (TypeError ''Media cannot be played with any valid media type'') \<longleftrightarrow>
     mediaFiles s \<noteq> [] \<and> no_elements (mediaFiles s) \<and> media s = Null"
proof (cases "mediaFiles s = []")
  case True
  then show ?thesis by (simp add: load_def)
next
  case False
  obtain s1 r where ls: "load_some env (mediaFiles s) s = (s1, r)"
    by (cases "load_some env (mediaFiles s) s")
  show ?thesis
  proof (cases "no_elements (mediaFiles s)")
    case True
    then have "load_some env (mediaFiles s) s = (s, Inr False)" by (rule load_some_holes)
    with False True show ?thesis by (cases "media s") (simp_all add: load_def)
  next
    case holes: False
    show ?thesis
    proof (cases r)
      case (Inl e)
      with ls False holes load_some_err[of env "mediaFiles s" s s1 e] show ?thesis
        by (simp add: load_def)
    next
      case (Inr found)
      with ls holes obtain a where "media s1 = Selected a" using load_some_Inr by blast
      with ls Inr False holes show ?thesis by (simp add: load_def)
    qed
  qed
qed

lemmas demo_defs =
  demo_env_def demo_predictType_def youtube_url_def vimeo_url_def hls_url_def other_url_def
  youtube_iframe_def other_iframe_def hls_video_def descriptor_def youtube_media_def
  youtube_loaded_def other_media_def playlist_def playlist_media_def hls_media_def
  playlist_s1_def playlist_s2_def youtube_adapter_def hls_adapter_def vimeo_iframe_def
  vimeo_media_def vimeo_adapter_def

lemmas model_defs =
  load_def load_callback_def select_media_def loadIframeSource_def loadNativeSource_def
  new_media_def construct_def new_promise_def then_promise_def canPlayType_def
  youtube_canPlayType_def adapter_has_def target_has_def call_method_def Let_def







lemma Media_youtube: "Media demo_env youtube_iframe = Inr youtube_media"
  by (simp add: Media_def getMediaFiles_def demo_defs)

lemma load_callback_media:
  "media (fst (load_callback env m s)) = media (fst (select_media env m s))"
  by (auto simp: load_callback_def split: prod.splits option.splits sum.splits)

lemma select_media_selected:
  assumes sel: "(if isIframe env (element s) then loadIframeSource env m s
                 else loadNativeSource env m s) = new_media env k m s"
    and ok: "k = YouTubeMedia \<or> \<not> ctorThrows env k (element s) m"
  shows "\<exists>a. media (fst (select_media env m s)) = Selected a \<and> a_class a = k \<and>
             a_element a = element s \<and> a_media a = m"
proof -
  from ok obtain s' a where nm: "new_media env k m s = (s', Inr (Selected a))"
    using new_media_ok by blast
  then have "a_class a = k \<and> a_element a = element s \<and> a_media a = m"
    using new_media_Inr by blast
  moreover have "media (fst (select_media env m s)) = Selected a"
    using nm by (simp add: select_media_def sel)
  ultimately show ?thesis by blast
qed

lemma load_youtube: "load demo_env youtube_media =
   (youtube_media\<lparr>media := Selected youtube_adapter, promises := [Fulfilled, Pending []],
      microtasks := [Reaction LoadThen 1]\<rparr>, None)"
  by (simp add: model_defs demo_defs)

lemma youtube_loaded_eq: "youtube_loaded =
   youtube_media\<lparr>media := Selected youtube_adapter, promises := [Fulfilled, Pending []],
      microtasks := [Reaction LoadThen 1]\<rparr>"
  by (simp add: youtube_loaded_def load_youtube)

lemma src_array_roundtrip:
  "get_src (fst (set_src env (JArr xs) s)) = JArr xs"
  by (simp add: set_src_def get_src_def split: backend.splits)

lemma src_array_no_exception:
  "media s = Selected a \<Longrightarrow> snd (set_src env (JArr xs) s) = None"
  by (simp add: set_src_def)

lemma set_src_array_files: "mediaFiles (fst (set_src env (JArr xs) s)) = xs"
  by (simp add: set_src_def split: backend.splits)

lemma set_src_object_files:
  "mediaFiles (fst (set_src env (JObj fs) s)) = mediaFiles s @ [Some (JObj fs)]"
  by (simp add: set_src_def split: backend.splits)

lemma iframe_files:
  "isIframe env el \<Longrightarrow>
     Media env el = Inr \<lparr>element = el,
        mediaFiles = [Some (JObj [(''type'', predictType env (JStr (src_prop el))),
                                  (''src'', JStr (src_prop el))])],
        promisePlay = None, media = NotSet, promises = [], microtasks = [], calls = []\<rparr>"
  by (simp add: Media_def getMediaFiles_def)

lemmas promise_defs =
  play_def pause_def then_promise_def new_promise_def run_microtask_def settle_def
  call_method_def ready_def Let_def

lemma play_then_pause_when_ready:
  assumes backend: "media s = Selected a"
    and known: "a_promise a < length (promises s)"
    and fulfilled: "promises s ! a_promise a = Fulfilled"
    and idle: "microtasks s = []"
    and t: "t = (if adapter_has env a ''pause'' then OnAdapter a else OnElement (element s))"
    and has: "target_has env t ''pause''"
    and t': "t' = (if adapter_has env a ''play'' then OnAdapter a else OnElement (element s))"
    and has': "target_has env t' ''play''"
  shows "\<exists>s'. drain 3 env (fst (pause env (fst (play s)))) = Some s' \<and>
              calls s' = calls s @ [(t', ''play''), (t, ''pause'')] \<and>
              microtasks s' = []"
  using assms
  by (cases "adapter_has env a ''pause''"; cases "adapter_has env a ''play''")
    (simp_all add: promise_defs numeral_3_eq_3 nth_append)

lemma vimeo_loaded_eq:
  "vimeo_loaded = vimeo_media\<lparr>media := Selected vimeo_adapter,
      promises := [Pending [(LoadThen, 1)], Pending []]\<rparr>"
  by (simp add: vimeo_loaded_def model_defs demo_defs)

lemma vimeo_has: "adapter_has demo_env vimeo_adapter name"
  by (simp add: adapter_has_def vimeo_adapter_def demo_env_def)

lemma vimeo_promise: "a_promise vimeo_adapter = 0"
  by (simp add: vimeo_adapter_def)

lemma Media_vimeo: "Media demo_env vimeo_iframe = Inr vimeo_media"
  by (simp add: Media_def getMediaFiles_def demo_defs)

lemma Media_hls:
  "Media (demo_env\<lparr>globalScope := (\<lambda>name. if name = ''nodeSource'' then Some (JStr []) else None)\<rparr>)
     hls_video = Inr hls_media"
  by (simp add: Media_def getMediaFiles_def demo_defs js_or_def getAttribute_def)

section \<open>Claims\<close>



text \<open>
  C2. On an iframe element the adapter class for a descriptor is chosen from the
  descriptor's URL \<open>u\<close> by the precedence Dailymotion, Facebook, Twitch, Vimeo,
  YouTube: \<open>_loadIframeSource\<close> constructs the class \<open>k\<close> of the first provider that
  recognises \<open>u\<close>, and when that constructor returns, \<open>this.media\<close> is an adapter of
  class \<open>k\<close> for this element and descriptor after the callback of \<open>load\<close>.
\<close>

theorem iframe_backend_precedence:
  assumes iframe: "isIframe env (element s)"
    and src: "get_prop m ''src'' = Inr u"
    and some: "isDailymotionSource env u \<or> isFacebookSource env u \<or> isTwitchSource env u \<or>
               isVimeoSource env u \<or> isYouTubeSource env u"
    and k: "k = (if isDailymotionSource env u then DailymotionMedia
                 else if isFacebookSource env u then FacebookMedia
                 else if isTwitchSource env u then TwitchMedia
                 else if isVimeoSource env u then VimeoMedia
                 else YouTubeMedia)"
    and ctor: "k = YouTubeMedia \<or> \<not> ctorThrows env k (element s) m"
  shows "loadIframeSource env m s = new_media env k m s \<and>
         (\<exists>a. media (fst (load_callback env m s)) = Selected a \<and> a_class a = k \<and>
              a_element a = element s \<and> a_media a = m)"
proof -
  have sel: "loadIframeSource env m s = new_media env k m s"
    using src some k by (auto simp: loadIframeSource_def)
  with iframe have "(if isIframe env (element s) then loadIframeSource env m s
                     else loadNativeSource env m s) = new_media env k m s"
    by simp
  from select_media_selected [OF this ctor] sel show ?thesis
    by (simp add: load_callback_media)
qed

theorem iframe_backend_precedence_witness:
  "isIframe demo_env (element youtube_media) \<and>
   get_prop (descriptor youtube_url ''application/x-youtube'') ''src'' = Inr (JStr youtube_url) \<and>
   isYouTubeSource demo_env (JStr youtube_url) \<and>
   loadIframeSource demo_env (descriptor youtube_url ''application/x-youtube'') youtube_media =
     new_media demo_env YouTubeMedia (descriptor youtube_url ''application/x-youtube'') youtube_media \<and>
   (\<exists>a. media (fst (load_callback demo_env (descriptor youtube_url ''application/x-youtube'')
                      youtube_media)) = Selected a \<and>
        a_class a = YouTubeMedia \<and> a_element a = element youtube_media \<and>
        a_media a = descriptor youtube_url ''application/x-youtube'') \<and>
   get_prop (descriptor vimeo_url ''video/mp4'') ''src'' = Inr (JStr vimeo_url) \<and>
   isVimeoSource demo_env (JStr vimeo_url) \<and>
   \<not> ctorThrows demo_env VimeoMedia (element youtube_media) (descriptor vimeo_url ''video/mp4'') \<and>
   (\<exists>a. media (fst (load_callback demo_env (descriptor vimeo_url ''video/mp4'') youtube_media)) =
          Selected a \<and>
        a_class a = VimeoMedia \<and> a_element a = element youtube_media \<and>
        a_media a = descriptor vimeo_url ''video/mp4'')"
proof -
  have iframe: "isIframe demo_env (element youtube_media)"
    by (simp add: demo_defs)
  have y_src: "get_prop (descriptor youtube_url ''application/x-youtube'') ''src'' =
      Inr (JStr youtube_url)"
    by (simp add: descriptor_def)
  have y_some: "isDailymotionSource demo_env (JStr youtube_url) \<or>
      isFacebookSource demo_env (JStr youtube_url) \<or> isTwitchSource demo_env (JStr youtube_url) \<or>
      isVimeoSource demo_env (JStr youtube_url) \<or> isYouTubeSource demo_env (JStr youtube_url)"
    by (simp add: demo_defs)
  have y_k: "YouTubeMedia =
      (if isDailymotionSource demo_env (JStr youtube_url) then DailymotionMedia
       else if isFacebookSource demo_env (JStr youtube_url) then FacebookMedia
       else if isTwitchSource demo_env (JStr youtube_url) then TwitchMedia
       else if isVimeoSource demo_env (JStr youtube_url) then VimeoMedia
       else YouTubeMedia)"
    by (simp add: demo_defs)
  have v_src: "get_prop (descriptor vimeo_url ''video/mp4'') ''src'' = Inr (JStr vimeo_url)"
    by (simp add: descriptor_def)
  have v_some: "isDailymotionSource demo_env (JStr vimeo_url) \<or>
      isFacebookSource demo_env (JStr vimeo_url) \<or> isTwitchSource demo_env (JStr vimeo_url) \<or>
      isVimeoSource demo_env (JStr vimeo_url) \<or> isYouTubeSource demo_env (JStr vimeo_url)"
    by (simp add: demo_defs)
  have v_k: "VimeoMedia =
      (if isDailymotionSource demo_env (JStr vimeo_url) then DailymotionMedia
       else if isFacebookSource demo_env (JStr vimeo_url) then FacebookMedia
       else if isTwitchSource demo_env (JStr vimeo_url) then TwitchMedia
       else if isVimeoSource demo_env (JStr vimeo_url) then VimeoMedia
       else YouTubeMedia)"
    by (simp add: demo_defs)
  have v_ctor: "\<not> ctorThrows demo_env VimeoMedia (element youtube_media)
      (descriptor vimeo_url ''video/mp4'')"
    by (simp add: demo_defs)
  have y_yes: "isYouTubeSource demo_env (JStr youtube_url)"
    and v_yes: "isVimeoSource demo_env (JStr vimeo_url)"
    by (simp_all add: demo_defs)
  from iframe_backend_precedence [OF iframe y_src y_some y_k]
    iframe_backend_precedence [OF iframe v_src v_some v_k] v_ctor
    iframe y_src v_src y_yes v_yes
  show ?thesis by simp
qed



text \<open>
  C4. The claim: constructing a Media on a video or audio element gathers every
  \<open>source\<close> child into \<open>mediaFiles\<close> and completes without throwing. The code: on
  every element that is no iframe \<open>_getMediaFiles\<close> reads the identifier
  \<open>nodeSource\<close> before it looks at the \<open>source\<close> children; where no global of that
  name exists, the read throws a ReferenceError and so does the constructor.
\<close>

theorem constructor_throws_on_media_element:
  assumes native: "\<not> isIframe env el"
    and unbound: "globalScope env ''nodeSource'' = None"
  shows "getMediaFiles env el = Inl (ReferenceError ''nodeSource'') \<and>
         Media env el = Inl (ReferenceError ''nodeSource'')"
  using native unbound by (simp add: Media_def getMediaFiles_def)

theorem constructor_throws_on_media_element_witness:
  "\<not> isIframe demo_env hls_video \<and> globalScope demo_env ''nodeSource'' = None \<and>
   source_children hls_video = [\<lparr>tag_src = hls_url, tag_type = None\<rparr>] \<and>
   getMediaFiles demo_env hls_video = Inl (ReferenceError ''nodeSource'') \<and>
   Media demo_env hls_video = Inl (ReferenceError ''nodeSource'')"
proof -
  have native: "\<not> isIframe demo_env hls_video"
    by (simp add: demo_defs)
  have unbound: "globalScope demo_env ''nodeSource'' = None"
    by (simp add: demo_defs)
  have "source_children hls_video = [\<lparr>tag_src = hls_url, tag_type = None\<rparr>]"
    by (simp add: hls_video_def)
  with constructor_throws_on_media_element [OF native unbound] native unbound
  show ?thesis by simp
qed

text \<open>
  C5. The claim: \<open>destroy()\<close> succeeds on a Media whose backend is the YouTube
  adapter. The code: \<open>destroy\<close> calls \<open>this.media.destroy()\<close> without the test
  \<open>play\<close>, \<open>pause\<close> and the setter of \<open>src\<close> make, and YouTubeMedia has no such method:
  whenever the YouTube adapter is selected, \<open>destroy\<close> throws a TypeError and
  delivers no call.
\<close>

theorem destroy_youtube_throws:
  assumes backend: "media s = Selected a"
    and youtube: "a_class a = YouTubeMedia"
  shows "destroy env s = (s, Some (TypeError ''destroy is not a function''))"
  using backend youtube
  by (simp add: destroy_def call_method_def target_has_def adapter_has_def)

theorem destroy_youtube_throws_witness:
  "Media demo_env youtube_iframe = Inr youtube_media \<and>
   snd (load demo_env youtube_media) = None \<and>
   media youtube_loaded = Selected youtube_adapter \<and>
   a_class youtube_adapter = YouTubeMedia \<and>
   destroy demo_env youtube_loaded =
     (youtube_loaded, Some (TypeError ''destroy is not a function''))"
proof -
  have backend: "media youtube_loaded = Selected youtube_adapter"
    by (simp add: youtube_loaded_eq)
  have youtube: "a_class youtube_adapter = YouTubeMedia"
    by (simp add: youtube_adapter_def)
  have ok: "snd (load demo_env youtube_media) = None"
    by (simp add: load_youtube)
  from destroy_youtube_throws [OF backend youtube, of demo_env] backend youtube ok Media_youtube
  show ?thesis by simp
qed

text \<open>
  C6. The claim: a pause is never delivered before a pending deferred play. The
  code: the promise \<open>play\<close> stores in \<open>promisePlay\<close> is fulfilled as soon as its
  callback has registered the inner callback on the adapter's \<open>promise\<close>, because the
  callback does not return the inner promise. So when the adapter is not ready
  (its \<open>promise\<close> is pending), \<open>play()\<close> followed by \<open>pause()\<close> and a run of the
  microtask queue delivers the pause, while the call of \<open>play\<close> still waits as a
  reaction of the adapter's \<open>promise\<close>.
\<close>

theorem pause_overtakes_pending_play:
  assumes backend: "media s = Selected a"
    and known: "a_promise a < length (promises s)"
    and pending: "promises s ! a_promise a = Pending rs"
    and idle: "microtasks s = []"
    and t: "t = (if adapter_has env a ''pause'' then OnAdapter a else OnElement (element s))"
    and has: "target_has env t ''pause''"
  shows "\<exists>s'. drain 2 env (fst (pause env (fst (play s)))) = Some s' \<and>
              calls s' = calls s @ [(t, ''pause'')] \<and>
              microtasks s' = [] \<and>
              promises s' ! a_promise a = Pending (rs @ [(PlayReadyThen, length (promises s) + 3)]) \<and>
              media s' = Selected a"
  using assms
  by (cases "adapter_has env a ''pause''") (simp_all add: promise_defs numeral_2_eq_2 nth_append)

theorem pause_overtakes_pending_play_witness:
  "Media demo_env vimeo_iframe = Inr vimeo_media \<and>
   load demo_env vimeo_media = (vimeo_loaded, None) \<and>
   media vimeo_loaded = Selected vimeo_adapter \<and>
   a_promise vimeo_adapter < length (promises vimeo_loaded) \<and>
   promises vimeo_loaded ! a_promise vimeo_adapter = Pending [(LoadThen, 1)] \<and>
   microtasks vimeo_loaded = [] \<and>
   target_has demo_env (OnAdapter vimeo_adapter) ''pause'' \<and>
   drain 2 demo_env (fst (pause demo_env (fst (play vimeo_loaded)))) = Some vimeo_paused \<and>
   calls vimeo_paused = [(OnAdapter vimeo_adapter, ''pause'')] \<and>
   promises vimeo_paused ! a_promise vimeo_adapter = Pending [(LoadThen, 1), (PlayReadyThen, 5)] \<and>
   (\<exists>s'. drain 2 demo_env (ready vimeo_adapter vimeo_paused) = Some s' \<and>
         calls s' = [(OnAdapter vimeo_adapter, ''pause''), (OnAdapter vimeo_adapter, ''load''),
                     (OnAdapter vimeo_adapter, ''play'')])"
proof -
  have loaded: "load demo_env vimeo_media = (vimeo_loaded, None)"
    by (simp add: vimeo_loaded_def prod_eq_iff) (simp add: model_defs demo_defs)
  have backend: "media vimeo_loaded = Selected vimeo_adapter"
    and known: "a_promise vimeo_adapter < length (promises vimeo_loaded)"
    and pending: "promises vimeo_loaded ! a_promise vimeo_adapter = Pending [(LoadThen, 1)]"
    and idle: "microtasks vimeo_loaded = []"
    by (simp_all add: vimeo_loaded_eq vimeo_media_def vimeo_promise)
  have t: "OnAdapter vimeo_adapter =
      (if adapter_has demo_env vimeo_adapter ''pause'' then OnAdapter vimeo_adapter
       else OnElement (element vimeo_loaded))"
    by (simp add: vimeo_has)
  have has: "target_has demo_env (OnAdapter vimeo_adapter) ''pause''"
    by (simp add: target_has_def vimeo_has)
  have run: "drain 2 demo_env (fst (pause demo_env (fst (play vimeo_loaded)))) = Some vimeo_paused"
    by (simp add: vimeo_loaded_eq vimeo_paused_def vimeo_media_def promise_defs eval_nat_numeral
        vimeo_has target_has_def vimeo_promise)
  have later: "\<exists>s'. drain 2 demo_env (ready vimeo_adapter vimeo_paused) = Some s' \<and>
         calls s' = [(OnAdapter vimeo_adapter, ''pause''), (OnAdapter vimeo_adapter, ''load''),
                     (OnAdapter vimeo_adapter, ''play'')]"
    by (simp add: vimeo_paused_def vimeo_media_def promise_defs eval_nat_numeral
        vimeo_has target_has_def vimeo_promise)
  from pause_overtakes_pending_play [OF backend known pending idle t has] run
  have "calls vimeo_paused = calls vimeo_loaded @ [(OnAdapter vimeo_adapter, ''pause'')]"
    and "promises vimeo_paused ! a_promise vimeo_adapter =
           Pending ([(LoadThen, 1)] @ [(PlayReadyThen, length (promises vimeo_loaded) + 3)])"
    by auto
  then have "calls vimeo_paused = [(OnAdapter vimeo_adapter, ''pause'')]"
    and "promises vimeo_paused ! a_promise vimeo_adapter =
           Pending [(LoadThen, 1), (PlayReadyThen, 5)]"
    by (simp_all add: vimeo_loaded_eq vimeo_media_def)
  with Media_vimeo loaded backend known pending idle has run later show ?thesis by simp
qed

text \<open>
  C7, as amended. The entry the constructor gathers from an iframe element is a
  descriptor with a \<open>src\<close> and a \<open>type\<close> property. The setter of \<open>src\<close> validates
  nothing: an array replaces the list by its slots and an object is appended as
  it is, so after such an assignment every entry is a descriptor exactly when the
  slots of the array are, or when the entries before and the object are. (The
  claim as stated fails: an object with no \<open>type\<close> property is appended like any
  other.)
\<close>

theorem mediaFiles_entries:
  "(isIframe env el \<longrightarrow>
      (\<exists>s. Media env el = Inr s \<and> list_all entry_is_descriptor (mediaFiles s))) \<and>
   mediaFiles (fst (set_src env (JArr xs) s)) = xs \<and>
   mediaFiles (fst (set_src env (JObj fs) s)) = mediaFiles s @ [Some (JObj fs)] \<and>
   list_all entry_is_descriptor (mediaFiles (fst (set_src env (JArr xs) s))) =
     list_all entry_is_descriptor xs \<and>
   list_all entry_is_descriptor (mediaFiles (fst (set_src env (JObj fs) s))) =
     (list_all entry_is_descriptor (mediaFiles s) \<and> is_descriptor (JObj fs))"
proof -
  have "isIframe env el \<longrightarrow>
      (\<exists>s. Media env el = Inr s \<and> list_all entry_is_descriptor (mediaFiles s))"
    by (simp add: iframe_files is_descriptor_def entry_is_descriptor_def)
  then show ?thesis
    by (simp add: set_src_array_files set_src_object_files entry_is_descriptor_def)
qed

theorem mediaFiles_entries_witness:
  "isIframe demo_env youtube_iframe \<and>
   Media demo_env youtube_iframe = Inr youtube_media \<and>
   list_all entry_is_descriptor (mediaFiles youtube_media) \<and>
   mediaFiles (fst (set_src demo_env (JArr playlist) youtube_loaded)) = playlist \<and>
   list_all entry_is_descriptor playlist \<and>
   list_all entry_is_descriptor (mediaFiles (fst (set_src demo_env (JArr playlist) youtube_loaded)))"
proof -
  have iframe: "isIframe demo_env youtube_iframe"
    by (simp add: demo_defs)
  have all: "list_all entry_is_descriptor playlist"
    by (simp add: playlist_def descriptor_def is_descriptor_def entry_is_descriptor_def)
  from mediaFiles_entries [of demo_env youtube_iframe playlist youtube_loaded] iframe all
    Media_youtube
  show ?thesis by auto
qed

theorem mediaFiles_entries_counterexample:
  "media youtube_loaded = Selected youtube_adapter \<and>
   list_all entry_is_descriptor (mediaFiles youtube_loaded) \<and>
   snd (set_src demo_env (JObj [(''src'', JStr hls_url)]) youtube_loaded) = None \<and>
   mediaFiles (fst (set_src demo_env (JObj [(''src'', JStr hls_url)]) youtube_loaded)) =
     [Some (descriptor youtube_url ''application/x-youtube''),
      Some (JObj [(''src'', JStr hls_url)])] \<and>
   \<not> list_all entry_is_descriptor
       (mediaFiles (fst (set_src demo_env (JObj [(''src'', JStr hls_url)]) youtube_loaded)))"
  by (simp add: youtube_loaded_eq youtube_media_def set_src_def adapter_has_def
      youtube_adapter_def is_descriptor_def entry_is_descriptor_def descriptor_def)

text \<open>
  C8. The claim: assigning a string \<open>u\<close> to \<open>src\<close> appends the descriptor of \<open>u\<close> with
  its predicted type. The code: the setter calls the identifier \<open>predictType\<close>, which
  the module does not bind (\<open>_getMediaFiles\<close> calls \<open>source.predictType\<close>); where no
  global of that name exists, the assignment throws a ReferenceError and the list
  the getter returns is the one from before.
\<close>

theorem src_string_throws:
  assumes unbound: "globalScope env ''predictType'' = None"
  shows "set_src env (JStr u) s = (s, Some (ReferenceError ''predictType'')) \<and>
         get_src (fst (set_src env (JStr u) s)) = get_src s"
  using unbound by (simp add: set_src_def call_global_def)

theorem src_string_throws_witness:
  "globalScope demo_env ''predictType'' = None \<and>
   media youtube_loaded = Selected youtube_adapter \<and>
   set_src demo_env (JStr hls_url) youtube_loaded =
     (youtube_loaded, Some (ReferenceError ''predictType'')) \<and>
   get_src (fst (set_src demo_env (JStr hls_url) youtube_loaded)) =
     JArr [Some (descriptor youtube_url ''application/x-youtube'')]"
proof -
  have unbound: "globalScope demo_env ''predictType'' = None"
    by (simp add: demo_defs)
  have backend: "media youtube_loaded = Selected youtube_adapter"
    by (simp add: youtube_loaded_eq)
  have "get_src youtube_loaded = JArr [Some (descriptor youtube_url ''application/x-youtube'')]"
    by (simp add: get_src_def youtube_loaded_eq youtube_media_def)
  with src_string_throws [OF unbound, of hls_url youtube_loaded] unbound backend
  show ?thesis by simp
qed

text \<open>
  C9, as amended. On an iframe element whose first descriptor has a URL that none
  of the five providers recognises, the adapter lookup yields \<open>null\<close> and \<open>load\<close>
  throws the TypeError of the call of \<open>canPlayType\<close> on \<open>null\<close>. The TypeError
  \<open>'Media cannot be played with any valid media type'\<close> is thrown by \<open>load\<close>, in any
  environment and from any state, exactly when the array \<open>mediaFiles\<close> is not empty
  and has no element (it consists of holes, so \<open>some\<close> calls nothing) and
  \<open>this.media\<close> is \<open>null\<close>, as an earlier \<open>load\<close> that threw leaves it; so never when
  \<open>mediaFiles\<close> has an element. (The claim as stated fails: after such a \<open>load\<close> and
  the assignment \<open>src = [ , ]\<close>, the next \<open>load\<close> throws it.)
\<close>

theorem load_unsupported_iframe:
  assumes iframe: "isIframe env (element s)"
    and files: "mediaFiles s = Some m # ms"
    and src: "get_prop m ''src'' = Inr u"
    and none: "\<not> isDailymotionSource env u" "\<not> isFacebookSource env u" "\<not> isTwitchSource env u"
              "\<not> isVimeoSource env u" "\<not> isYouTubeSource env u"
  shows "loadIframeSource env m s = (s, Inr Null) \<and>
         load env s = (s\<lparr>media := Null\<rparr>,
                       Some (TypeError ''cannot read property of null: canPlayType'')) \<and>
         (\<forall>env' s'.
            (snd (load env' s') =
               Some (TypeError ''Media cannot be played with any valid media type'')) =
            (mediaFiles s' \<noteq> [] \<and> no_elements (mediaFiles s') \<and> media s' = Null)) \<and>
         (\<forall>env' s' pre x post. mediaFiles s' = pre @ Some x # post \<longrightarrow>
            snd (load env' s') \<noteq>
              Some (TypeError ''Media cannot be played with any valid media type''))"
proof -
  have lookup: "loadIframeSource env m s = (s, Inr Null)"
    using src none by (simp add: loadIframeSource_def)
  from src obtain t where t: "get_prop m ''type'' = Inr t"
    using get_prop_other by blast
  have "load_callback env m s =
          (s\<lparr>media := Null\<rparr>, Inl (TypeError ''cannot read property of null: canPlayType''))"
    using iframe lookup t by (simp add: load_callback_def select_media_def canPlayType_def)
  then have thrown: "load env s = (s\<lparr>media := Null\<rparr>,
                       Some (TypeError ''cannot read property of null: canPlayType''))"
    using files by (simp add: load_def)
  have never: "\<forall>env' s' pre x post. mediaFiles s' = pre @ Some x # post \<longrightarrow>
            snd (load env' s') \<noteq>
              Some (TypeError ''Media cannot be played with any valid media type'')"
    by (auto simp: load_guard_iff no_elements_def)
  from lookup thrown never show ?thesis
    using load_guard_iff by blast
qed

theorem load_unsupported_iframe_witness:
  "isIframe demo_env (element other_media) \<and>
   mediaFiles other_media = Some (descriptor other_url ''video/mp4'') # [] \<and>
   get_prop (descriptor other_url ''video/mp4'') ''src'' = Inr (JStr other_url) \<and>
   \<not> isDailymotionSource demo_env (JStr other_url) \<and> \<not> isFacebookSource demo_env (JStr other_url) \<and>
   \<not> isTwitchSource demo_env (JStr other_url) \<and> \<not> isVimeoSource demo_env (JStr other_url) \<and>
   \<not> isYouTubeSource demo_env (JStr other_url) \<and>
   Media demo_env other_iframe = Inr other_media \<and>
   loadIframeSource demo_env (descriptor other_url ''video/mp4'') other_media =
     (other_media, Inr Null) \<and>
   load demo_env other_media =
     (other_media\<lparr>media := Null\<rparr>, Some (TypeError ''cannot read property of null: canPlayType'')) \<and>
   snd (load demo_env other_media) \<noteq>
     Some (TypeError ''Media cannot be played with any valid media type'')"
proof -
  have iframe: "isIframe demo_env (element other_media)"
    by (simp add: demo_defs)
  have files: "mediaFiles other_media = Some (descriptor other_url ''video/mp4'') # []"
    by (simp add: other_media_def)
  have src: "get_prop (descriptor other_url ''video/mp4'') ''src'' = Inr (JStr other_url)"
    by (simp add: descriptor_def)
  have none: "\<not> isDailymotionSource demo_env (JStr other_url)"
    "\<not> isFacebookSource demo_env (JStr other_url)" "\<not> isTwitchSource demo_env (JStr other_url)"
    "\<not> isVimeoSource demo_env (JStr other_url)" "\<not> isYouTubeSource demo_env (JStr other_url)"
    by (simp_all add: demo_defs)
  have built: "Media demo_env other_iframe = Inr other_media"
    by (simp add: Media_def getMediaFiles_def demo_defs)
  have elem: "mediaFiles other_media = [] @ Some (descriptor other_url ''video/mp4'') # []"
    by (simp add: other_media_def)
  note inst = load_unsupported_iframe [OF iframe files src none]
  from inst elem have "snd (load demo_env other_media) \<noteq>
     Some (TypeError ''Media cannot be played with any valid media type'')"
    by blast
  with inst iframe files src none built show ?thesis by simp
qed

theorem load_unsupported_iframe_counterexample:
  "Media demo_env other_iframe = Inr other_media \<and>
   load demo_env other_media =
     (other_failed, Some (TypeError ''cannot read property of null: canPlayType'')) \<and>
   media other_failed = Null \<and>
   set_src demo_env (JArr [None]) other_failed =
     (other_sparse, Some (TypeError ''cannot read property of null: src'')) \<and>
   mediaFiles other_sparse = [None] \<and>
   load demo_env other_sparse =
     (other_sparse, Some (TypeError ''Media cannot be played with any valid media type''))"
proof -
  have built: "Media demo_env other_iframe = Inr other_media"
    by (simp add: Media_def getMediaFiles_def demo_defs)
  have failed: "load demo_env other_media =
      (other_media\<lparr>media := Null\<rparr>, Some (TypeError ''cannot read property of null: canPlayType''))"
    by (simp add: model_defs demo_defs)
  then have eq1: "other_failed = other_media\<lparr>media := Null\<rparr>"
    by (simp add: other_failed_def)
  have assigned: "set_src demo_env (JArr [None]) other_failed =
      (other_failed\<lparr>mediaFiles := [None]\<rparr>, Some (TypeError ''cannot read property of null: src''))"
    by (simp add: eq1 set_src_def)
  then have eq2: "other_sparse = other_failed\<lparr>mediaFiles := [None]\<rparr>"
    by (simp add: other_sparse_def)
  have guard: "load demo_env other_sparse =
     (other_sparse, Some (TypeError ''Media cannot be played with any valid media type''))"
    by (simp add: eq2 eq1 load_def)
  have left: "media other_failed = Null"
    by (simp add: eq1)
  have files: "mediaFiles other_sparse = [None]"
    by (simp add: eq2)
  have first: "load demo_env other_media =
      (other_failed, Some (TypeError ''cannot read property of null: canPlayType''))"
    using failed by (simp add: eq1)
  have second: "set_src demo_env (JArr [None]) other_failed =
      (other_sparse, Some (TypeError ''cannot read property of null: src''))"
    using assigned by (simp add: eq2)
  from built first left second files guard show ?thesis by simp
qed

text \<open>
  C10. When \<open>mediaFiles\<close> is empty, \<open>load\<close> throws the TypeError \<open>'Media not set'\<close>
  before it selects any backend, and it leaves the whole state as it was: the
  object's \<open>mediaFiles\<close>, \<open>promisePlay\<close> and \<open>media\<close>, and the runtime as well.
\<close>

theorem load_media_not_set:
  assumes "mediaFiles s = []"
  shows "load env s = (s, Some (TypeError ''Media not set''))"
  using assms by (simp add: load_def)

theorem load_media_not_set_witness:
  "media youtube_loaded = Selected youtube_adapter \<and>
   mediaFiles (fst (set_src demo_env (JArr []) youtube_loaded)) = [] \<and>
   load demo_env (fst (set_src demo_env (JArr []) youtube_loaded)) =
     (fst (set_src demo_env (JArr []) youtube_loaded), Some (TypeError ''Media not set'')) \<and>
   media (fst (load demo_env (fst (set_src demo_env (JArr []) youtube_loaded)))) =
     Selected youtube_adapter"
proof -
  have empty: "mediaFiles (fst (set_src demo_env (JArr []) youtube_loaded)) = []"
    by (simp add: set_src_array_files)
  have backend: "media youtube_loaded = Selected youtube_adapter"
    by (simp add: youtube_loaded_eq)
  then have "media (fst (set_src demo_env (JArr []) youtube_loaded)) = Selected youtube_adapter"
    by (simp add: set_src_def)
  with load_media_not_set [OF empty, of demo_env] empty backend show ?thesis by simp
qed

end
